theory Spec2Isabelle
  imports Main "HOL-Library.Option_ord" "HOL-Library.Multiset"
begin

section \<open>Documents and requests\<close>

text \<open>
  The keys that the handlers of \<^verbatim>\<open>routes/tasks.js\<close> destructure from \<^verbatim>\<open>req.body\<close>.
  A key that the parsed JSON body does not carry reads as \<^verbatim>\<open>undefined\<close>, which is
  \<open>None\<close> here. The same fields are the schema paths of a task document that a client
  can write, so a task document extends this record.
\<close>

record task_fields =
  title :: "string option"
  description :: "string option"
  dueDate :: "string option"
  priority :: "int option"
  completed :: "bool option"
  workspace :: "string option"
  team :: "string option"

type_synonym body = task_fields

text \<open>
  A task document: the writable paths, the identifier \<^verbatim>\<open>_id\<close> (\<open>oid\<close>), the
  owner and the creation time.
\<close>

record Task = task_fields +
  oid :: string
  user :: string
  createdAt :: nat

record Team =
  team_oid :: string
  members :: "string list"

record User =
  user_oid :: string
  username :: string

text \<open>The three collections; \<open>tasks\<close> is kept in insertion order.\<close>

record store =
  tasks :: "Task list"
  teams :: "Team list"
  users :: "User list"

text \<open>
  What a handler run takes from outside the program text: the identifier and the
  time that a new document gets, whether the database answers, the validators
  of the task schema (\<^verbatim>\<open>models/task.js\<close>, taken as a parameter), and what the
  driver's version makes of a string that is not 24 hexadecimal digits when it
  casts it to an identifier (older versions read 12 characters as the 12 bytes,
  newer ones throw): the identifier's text, \<open>None\<close> for the throw.
\<close>

record env =
  new_id :: string
  now :: nat
  db_up :: bool
  validate :: "Task \<Rightarrow> bool"
  other_cast :: "string \<Rightarrow> string option"

text \<open>The result of awaiting a promise of the persistence layer.\<close>

datatype 'a awaited = Rejected | Resolved 'a

datatype payload =
    TaskList "Task list"
  | TaskDoc Task
  | TeamTaskList "(Task \<times> string option) list"
  | Msg string
  | Message string
  | Text string
  | AuthRejection

text \<open>
  \<open>Response code p\<close> is \<^verbatim>\<open>res.status(code)\<close> followed by \<^verbatim>\<open>json\<close> or \<^verbatim>\<open>send\<close>
  (\<^verbatim>\<open>res.json\<close> alone sends 200); \<open>Msg m\<close> is the object \<^verbatim>\<open>{ msg: m }\<close>, \<open>Message m\<close>
  the object \<^verbatim>\<open>{ message: m }\<close>, \<open>Text m\<close> a plain body. \<open>Unhandled\<close>: no
  registration of the router took the request.
\<close>

datatype response = Response nat payload | Unhandled

datatype verb = GET | POST | PUT | DELETE

record request =
  verb :: verb
  path :: "string list"
  principal :: "string option"
  sortBy :: "string option"
  body :: body


section \<open>The persistence layer\<close>

text \<open>\<^verbatim>\<open>!v\<close> for a value that is a string or \<^verbatim>\<open>undefined\<close>.\<close>

definition falsy :: "string option \<Rightarrow> bool" where
  "falsy v = (v = None \<or> v = Some [])"

fun insert_desc :: "('a \<Rightarrow> 'k::linorder) \<Rightarrow> 'a \<Rightarrow> 'a list \<Rightarrow> 'a list" where
  "insert_desc key x [] = [x]"
| "insert_desc key x (y # ys) =
     (if key x < key y then y # insert_desc key x ys else x # y # ys)"

text \<open>
  \<^verbatim>\<open>.sort({ key: -1 })\<close>: descending by the key, a missing value below every present
  one (the order of \<open>option\<close>); documents with equal keys stay in storage order.
\<close>

definition sort_desc :: "('a \<Rightarrow> 'k::linorder) \<Rightarrow> 'a list \<Rightarrow> 'a list" where
  "sort_desc key xs = foldr (insert_desc key) xs []"

fun replace_first :: "('a \<Rightarrow> bool) \<Rightarrow> 'a \<Rightarrow> 'a list \<Rightarrow> 'a list" where
  "replace_first P y [] = []"
| "replace_first P y (x # xs) = (if P x then y # xs else x # replace_first P y xs)"

fun remove_first :: "('a \<Rightarrow> bool) \<Rightarrow> 'a list \<Rightarrow> 'a list" where
  "remove_first P [] = []"
| "remove_first P (x # xs) = (if P x then xs else x # remove_first P xs)"

text \<open>A letter in lower case; any other character as it is.\<close>

definition lower :: "char \<Rightarrow> char" where
  "lower c =
     (let n = (of_char c :: nat) in if 65 \<le> n \<and> n \<le> 90 then char_of (n + 32) else c)"

definition hex_digit :: "char \<Rightarrow> bool" where
  "hex_digit c = (c \<in> set ''0123456789abcdefABCDEF'')"

text \<open>
  The cast of a string to an identifier, which \<^verbatim>\<open>findById\<close> and
  \<^verbatim>\<open>findByIdAndUpdate\<close> apply to their argument before they query: 24 hexadecimal
  digits in either case are an identifier, whose text (\<^verbatim>\<open>toString\<close>) has them in
  lower case. \<open>None\<close> is the \<^verbatim>\<open>CastError\<close>, with which the query is rejected. The
  \<open>oid\<close> of a stored document is the text of its identifier.
\<close>

definition to_ObjectId :: "env \<Rightarrow> string \<Rightarrow> string option" where
  "to_ObjectId e i =
     (if length i = 24 \<and> list_all hex_digit i then Some (map lower i) else other_cast e i)"

text \<open>\<^verbatim>\<open>Task.find(filter)\<close>.\<close>

definition Task_find :: "env \<Rightarrow> (Task \<Rightarrow> bool) \<Rightarrow> store \<Rightarrow> Task list awaited" where
  "Task_find e flt s = (if db_up e then Resolved (filter flt (tasks s)) else Rejected)"

definition sorted_by :: "(Task \<Rightarrow> 'k::linorder) \<Rightarrow> Task list awaited \<Rightarrow> Task list awaited" where
  "sorted_by key q = (case q of Rejected \<Rightarrow> Rejected | Resolved ts \<Rightarrow> Resolved (sort_desc key ts))"

definition Task_findById :: "env \<Rightarrow> string \<Rightarrow> store \<Rightarrow> Task option awaited" where
  "Task_findById e i s =
     (if db_up e then
        (case to_ObjectId e i of
           None \<Rightarrow> Rejected
         | Some k \<Rightarrow> Resolved (find (\<lambda>t. oid t = k) (tasks s)))
      else Rejected)"

definition Team_findById :: "env \<Rightarrow> string \<Rightarrow> store \<Rightarrow> Team option awaited" where
  "Team_findById e i s =
     (if db_up e then
        (case to_ObjectId e i of
           None \<Rightarrow> Rejected
         | Some k \<Rightarrow> Resolved (find (\<lambda>t. team_oid t = k) (teams s)))
      else Rejected)"

text \<open>
  \<^verbatim>\<open>save()\<close> of a document made by \<^verbatim>\<open>new Task\<close>: validation, then an insert.
\<close>

definition save_new :: "env \<Rightarrow> Task \<Rightarrow> store \<Rightarrow> store awaited" where
  "save_new e t s =
     (if db_up e \<and> validate e t then Resolved (s\<lparr>tasks := tasks s @ [t]\<rparr>) else Rejected)"

text \<open>
  Modelled from the spec: the default of the \<open>completed\<close> path (false), from the
  task schema \<^verbatim>\<open>models/task.js\<close>. The collection is kept as the model reads it
  back, and a path that was unset reads as its default.
\<close>

definition as_read :: "Task \<Rightarrow> Task" where
  "as_read t = (case completed t of None \<Rightarrow> t\<lparr>completed := Some False\<rparr> | Some c \<Rightarrow> t)"

text \<open>
  \<^verbatim>\<open>save()\<close> of a document that was loaded: validation, then an update of the
  document with its \<^verbatim>\<open>_id\<close>; a path assigned \<^verbatim>\<open>undefined\<close> is unset.
\<close>

definition save_loaded :: "env \<Rightarrow> Task \<Rightarrow> store \<Rightarrow> store awaited" where
  "save_loaded e t s =
     (if db_up e \<and> validate e t
      then Resolved (s\<lparr>tasks := replace_first (\<lambda>x. oid x = oid t) (as_read t) (tasks s)\<rparr>)
      else Rejected)"

definition deleteOne :: "env \<Rightarrow> Task \<Rightarrow> store \<Rightarrow> store awaited" where
  "deleteOne e t s =
     (if db_up e then Resolved (s\<lparr>tasks := remove_first (\<lambda>x. oid x = oid t) (tasks s)\<rparr>)
      else Rejected)"

text \<open>
  \<^verbatim>\<open>Task.findByIdAndUpdate(id, { completed }, { new: true })\<close>: the id is cast; no
  validators run; an \<^verbatim>\<open>undefined\<close> value is dropped from the update; the document
  after the update is returned, \<^verbatim>\<open>null\<close> when none has the id.
\<close>

definition Task_findByIdAndUpdate ::
  "env \<Rightarrow> string \<Rightarrow> bool option \<Rightarrow> store \<Rightarrow> (store \<times> Task option) awaited" where
  "Task_findByIdAndUpdate e i c s =
     (if db_up e then
        (case to_ObjectId e i of
           None \<Rightarrow> Rejected
         | Some k \<Rightarrow>
             (case find (\<lambda>t. oid t = k) (tasks s) of
                None \<Rightarrow> Resolved (s, None)
              | Some t \<Rightarrow>
                  (let t' = (case c of None \<Rightarrow> t | Some b \<Rightarrow> t\<lparr>completed := Some b\<rparr>)
                   in Resolved (s\<lparr>tasks := replace_first (\<lambda>x. oid x = k) t' (tasks s)\<rparr>,
                                Some t'))))
      else Rejected)"

text \<open>
  \<^verbatim>\<open>.populate('user', 'username')\<close>: the owner's reference is replaced by the user
  document's name, by \<^verbatim>\<open>null\<close> when no such user exists.
\<close>

definition populate_user :: "store \<Rightarrow> Task \<Rightarrow> Task \<times> string option" where
  "populate_user s t = (t, map_option username (find (\<lambda>u. user_oid u = user t) (users s)))"

definition server_error :: response where
  "server_error = Response 500 (Text ''Server Error'')"


section \<open>The handlers of routes/tasks.js\<close>

text \<open>First registration of \<^verbatim>\<open>GET /\<close> (lines 11 to 29).\<close>

definition get_root :: "env \<Rightarrow> string \<Rightarrow> string option \<Rightarrow> store \<Rightarrow> store \<times> response" where
  "get_root e uid sort_param s =
     (let found =
        (if sort_param = Some ''priority'' then
           sorted_by priority (Task_find e (\<lambda>t. user t = uid) s)
         else if sort_param = Some ''dateAdded'' then
           sorted_by createdAt (Task_find e (\<lambda>t. user t = uid) s)
         else Task_find e (\<lambda>t. user t = uid) s)
      in case found of
           Rejected \<Rightarrow> (s, server_error)
         | Resolved ts \<Rightarrow> (s, Response 200 (TaskList ts)))"

text \<open>
  \<^verbatim>\<open>POST /\<close> (lines 34 to 72). \<open>completed\<close>, \<open>oid\<close> and \<open>createdAt\<close> are not passed
  to \<^verbatim>\<open>new Task\<close>. Modelled from the spec: they get the schema's defaults of
  \<^verbatim>\<open>models/task.js\<close> (false, a new identifier, the time of creation).
\<close>

definition post_root :: "env \<Rightarrow> string \<Rightarrow> body \<Rightarrow> store \<Rightarrow> store \<times> response" where
  "post_root e uid b s =
     (if workspace b = Some ''personal'' then
        (let task = \<lparr>title = title b, description = description b, dueDate = dueDate b,
                     priority = priority b, completed = Some False,
                     workspace = workspace b, team = None,
                     oid = new_id e, user = uid, createdAt = now e\<rparr>
         in case save_new e task s of
              Rejected \<Rightarrow> (s, server_error)
            | Resolved s' \<Rightarrow> (s', Response 200 (TaskDoc task)))
      else if workspace b = Some ''team'' then
        (if falsy (team b) then
           (s, Response 400 (Msg ''Team ID is required for team workspace''))
         else
           (let task = \<lparr>title = title b, description = description b, dueDate = dueDate b,
                        priority = priority b, completed = Some False,
                        workspace = workspace b, team = team b,
                        oid = new_id e, user = uid, createdAt = now e\<rparr>
            in case save_new e task s of
                 Rejected \<Rightarrow> (s, server_error)
               | Resolved s' \<Rightarrow> (s', Response 200 (TaskDoc task))))
      else (s, Response 400 (Msg ''Invalid workspace'')))"

text \<open>
  \<^verbatim>\<open>PUT /:id\<close> (lines 75 to 98). \<^verbatim>\<open>taskData\<close> has all five keys, each with the
  body's value or \<^verbatim>\<open>undefined\<close>, and \<^verbatim>\<open>Object.assign\<close> assigns every one of them.
\<close>

definition put_id :: "env \<Rightarrow> string \<Rightarrow> string \<Rightarrow> body \<Rightarrow> store \<Rightarrow> store \<times> response" where
  "put_id e uid i b s =
     (case Task_findById e i s of
        Rejected \<Rightarrow> (s, server_error)
      | Resolved None \<Rightarrow> (s, Response 404 (Msg ''Task not found''))
      | Resolved (Some task) \<Rightarrow>
          (if user task \<noteq> uid then (s, Response 401 (Msg ''Not authorized''))
           else
             (let task' = task\<lparr>title := title b, description := description b,
                               dueDate := dueDate b, priority := priority b,
                               completed := completed b\<rparr>
              in case save_loaded e task' s of
                   Rejected \<Rightarrow> (s, server_error)
                 | Resolved s' \<Rightarrow> (s', Response 200 (TaskDoc task')))))"

text \<open>\<^verbatim>\<open>DELETE /:id\<close> (lines 105 to 125).\<close>

definition delete_id :: "env \<Rightarrow> string \<Rightarrow> string \<Rightarrow> store \<Rightarrow> store \<times> response" where
  "delete_id e uid i s =
     (case Task_findById e i s of
        Rejected \<Rightarrow> (s, server_error)
      | Resolved None \<Rightarrow> (s, Response 404 (Msg ''Task not found''))
      | Resolved (Some task) \<Rightarrow>
          (if user task \<noteq> uid then (s, Response 401 (Msg ''Not authorized''))
           else
             (case deleteOne e task s of
                Rejected \<Rightarrow> (s, server_error)
              | Resolved s' \<Rightarrow> (s', Response 200 (Msg ''Task removed'')))))"

text \<open>\<^verbatim>\<open>POST /:teamId\<close> (lines 130 to 161); no \<open>workspace\<close> is passed to \<^verbatim>\<open>new Task\<close>.\<close>

definition post_teamId :: "env \<Rightarrow> string \<Rightarrow> string \<Rightarrow> body \<Rightarrow> store \<Rightarrow> store \<times> response" where
  "post_teamId e userId teamId b s =
     (case Team_findById e teamId s of
        Rejected \<Rightarrow> (s, server_error)
      | Resolved None \<Rightarrow> (s, Response 404 (Msg ''Team not found''))
      | Resolved (Some tm) \<Rightarrow>
          (if userId \<notin> set (members tm) then
             (s, Response 401 (Msg ''Not authorized to create tasks within this team''))
           else
             (let newTask = \<lparr>title = title b, description = description b,
                             dueDate = dueDate b, priority = priority b,
                             completed = Some False, workspace = None, team = Some teamId,
                             oid = new_id e, user = userId, createdAt = now e\<rparr>
              in case save_new e newTask s of
                   Rejected \<Rightarrow> (s, server_error)
                 | Resolved s' \<Rightarrow> (s', Response 200 (TaskDoc newTask)))))"

text \<open>\<^verbatim>\<open>GET /:teamId\<close> (lines 166 to 187).\<close>

definition get_teamId :: "env \<Rightarrow> string \<Rightarrow> string \<Rightarrow> store \<Rightarrow> store \<times> response" where
  "get_teamId e userId teamId s =
     (case Team_findById e teamId s of
        Rejected \<Rightarrow> (s, server_error)
      | Resolved None \<Rightarrow> (s, Response 404 (Msg ''Team not found''))
      | Resolved (Some tm) \<Rightarrow>
          (if userId \<notin> set (members tm) then
             (s, Response 401 (Msg ''Not authorized to view tasks within this team''))
           else
             (case Task_find e (\<lambda>t. team t = Some teamId) s of
                Rejected \<Rightarrow> (s, server_error)
              | Resolved ts \<Rightarrow> (s, Response 200 (TeamTaskList (map (populate_user s) ts))))))"

text \<open>Second registration of \<^verbatim>\<open>GET /\<close> (lines 192 to 210).\<close>

definition get_root_again :: "env \<Rightarrow> string \<Rightarrow> string option \<Rightarrow> store \<Rightarrow> store \<times> response" where
  "get_root_again e uid sort_param s =
     (let found =
        (if sort_param = Some ''priority'' then
           sorted_by priority (Task_find e (\<lambda>t. user t = uid) s)
         else if sort_param = Some ''dateAdded'' then
           sorted_by createdAt (Task_find e (\<lambda>t. user t = uid) s)
         else Task_find e (\<lambda>t. user t = uid) s)
      in case found of
           Rejected \<Rightarrow> (s, server_error)
         | Resolved ts \<Rightarrow> (s, Response 200 (TaskList ts)))"

text \<open>\<^verbatim>\<open>PUT /:id/status\<close> (lines 213 to 233); \<^verbatim>\<open>req.user\<close> is not read.\<close>

definition put_id_status :: "env \<Rightarrow> string \<Rightarrow> string \<Rightarrow> body \<Rightarrow> store \<Rightarrow> store \<times> response" where
  "put_id_status e uid taskId b s =
     (case Task_findByIdAndUpdate e taskId (completed b) s of
        Rejected \<Rightarrow> (s, Response 500 (Message ''Internal server error''))
      | Resolved (s', None) \<Rightarrow> (s', Response 404 (Message ''Task not found''))
      | Resolved (s', Some task) \<Rightarrow> (s', Response 200 (TaskDoc task)))"


section \<open>The router\<close>

text \<open>
  Modelled from the spec: the middleware \<^verbatim>\<open>auth\<close> (\<^verbatim>\<open>middleware/auth.js\<close>). It
  attaches the authenticated identity as \<^verbatim>\<open>req.user.id\<close> and passes on, or rejects
  the request with 401 before any handler runs. \<open>principal\<close> is the identity that
  the request's credentials resolve to, \<open>None\<close> when they resolve to none.
\<close>

definition auth :: "request \<Rightarrow> (string \<Rightarrow> store \<Rightarrow> store \<times> response) \<Rightarrow> store \<Rightarrow> store \<times> response" where
  "auth rq handler s =
     (case principal rq of
        None \<Rightarrow> (s, Response 401 AuthRejection)
      | Some uid \<Rightarrow> handler uid s)"

text \<open>
  A registration: the method and one of the three path shapes of the file,
  \<^verbatim>\<open>'/'\<close>, \<^verbatim>\<open>'/:p'\<close> and \<^verbatim>\<open>'/:p/literal'\<close>, each with a handler that takes the
  environment, \<^verbatim>\<open>req.user.id\<close>, the path parameter if any, and the request.
\<close>

datatype route =
    Root verb "env \<Rightarrow> string \<Rightarrow> request \<Rightarrow> store \<Rightarrow> store \<times> response"
  | Param verb "env \<Rightarrow> string \<Rightarrow> string \<Rightarrow> request \<Rightarrow> store \<Rightarrow> store \<times> response"
  | ParamLit verb string "env \<Rightarrow> string \<Rightarrow> string \<Rightarrow> request \<Rightarrow> store \<Rightarrow> store \<times> response"

text \<open>
  The handler a registration offers for a request, with the parameter bound;
  \<open>None\<close> when the path or the method does not match. \<open>path\<close> is the list of the
  non-empty segments of the URL below the mount point. Route paths are matched
  without regard to letter case (the router's default).
\<close>

fun route_handles ::
  "route \<Rightarrow> request \<Rightarrow> (env \<Rightarrow> string \<Rightarrow> store \<Rightarrow> store \<times> response) option" where
  "route_handles (Root v h) rq =
     (if verb rq = v \<and> path rq = [] then Some (\<lambda>e uid. h e uid rq) else None)"
| "route_handles (Param v h) rq =
     (case path rq of
        [p] \<Rightarrow> if verb rq = v then Some (\<lambda>e uid. h e uid p rq) else None
      | _ \<Rightarrow> None)"
| "route_handles (ParamLit v l h) rq =
     (case path rq of
        [p, x] \<Rightarrow>
          if verb rq = v \<and> map lower x = map lower l then Some (\<lambda>e uid. h e uid p rq)
          else None
      | _ \<Rightarrow> None)"

text \<open>
  Dispatch walks the registrations in order. The first one that matches runs
  \<^verbatim>\<open>auth\<close> and then its handler; no handler of the file calls \<^verbatim>\<open>next\<close>, so no
  later registration runs.
\<close>

fun dispatch :: "route list \<Rightarrow> env \<Rightarrow> request \<Rightarrow> store \<Rightarrow> store \<times> response" where
  "dispatch [] e rq s = (s, Unhandled)"
| "dispatch (r # rs) e rq s =
     (case route_handles r rq of
        None \<Rightarrow> dispatch rs e rq s
      | Some h \<Rightarrow> auth rq (h e) s)"

text \<open>The eight registrations, in the order of the file.\<close>

definition router :: "route list" where
  "router =
     [Root GET (\<lambda>e uid rq. get_root e uid (sortBy rq)),
      Root POST (\<lambda>e uid rq. post_root e uid (body rq)),
      Param PUT (\<lambda>e uid p rq. put_id e uid p (body rq)),
      Param DELETE (\<lambda>e uid p rq. delete_id e uid p),
      Param POST (\<lambda>e uid p rq. post_teamId e uid p (body rq)),
      Param GET (\<lambda>e uid p rq. get_teamId e uid p),
      Root GET (\<lambda>e uid rq. get_root_again e uid (sortBy rq)),
      ParamLit PUT ''status'' (\<lambda>e uid p rq. put_id_status e uid p (body rq))]"

text \<open>The router with the second registration of \<^verbatim>\<open>GET /\<close> taken out.\<close>

definition router_without_duplicate :: "route list" where
  "router_without_duplicate =
     [Root GET (\<lambda>e uid rq. get_root e uid (sortBy rq)),
      Root POST (\<lambda>e uid rq. post_root e uid (body rq)),
      Param PUT (\<lambda>e uid p rq. put_id e uid p (body rq)),
      Param DELETE (\<lambda>e uid p rq. delete_id e uid p),
      Param POST (\<lambda>e uid p rq. post_teamId e uid p (body rq)),
      Param GET (\<lambda>e uid p rq. get_teamId e uid p),
      ParamLit PUT ''status'' (\<lambda>e uid p rq. put_id_status e uid p (body rq))]"


section \<open>A small database for concrete runs\<close>

definition no_fields :: body where
  "no_fields = \<lparr>title = None, description = None, dueDate = None, priority = None,
                completed = None, workspace = None, team = None\<rparr>"

definition task1 :: Task where
  "task1 = \<lparr>title = Some ''report'', description = Some ''draft'', dueDate = None,
            priority = Some 1, completed = Some False, workspace = Some ''personal'',
            team = None, oid = ''000000000000000000000001'', user = ''alice'', createdAt = 10\<rparr>"

definition task2 :: Task where
  "task2 = \<lparr>title = Some ''slides'', description = None, dueDate = None,
            priority = Some 5, completed = Some False, workspace = Some ''personal'',
            team = None, oid = ''000000000000000000000002'', user = ''alice'', createdAt = 20\<rparr>"

definition task3 :: Task where
  "task3 = \<lparr>title = Some ''review'', description = None, dueDate = None,
            priority = Some 3, completed = Some False, workspace = Some ''personal'',
            team = None, oid = ''000000000000000000000003'', user = ''alice'', createdAt = 30\<rparr>"

definition task4 :: Task where
  "task4 = \<lparr>title = Some ''budget'', description = None, dueDate = None,
            priority = Some 2, completed = Some False, workspace = None,
            team = Some ''000000000000000000000101'', oid = ''000000000000000000000004'', user = ''bob'', createdAt = 40\<rparr>"

definition db :: store where
  "db = \<lparr>tasks = [task1, task2, task3, task4],
         teams = [\<lparr>team_oid = ''000000000000000000000101'', members = [''bob'']\<rparr>],
         users = [\<lparr>user_oid = ''alice'', username = ''Alice''\<rparr>,
                  \<lparr>user_oid = ''bob'', username = ''Bob''\<rparr>]\<rparr>"

text \<open>
  An environment whose schema requires a title and whose driver casts nothing but
  24 hexadecimal digits.
\<close>

definition env1 :: env where
  "env1 = \<lparr>new_id = ''000000000000000000000005'', now = 50, db_up = True,
            validate = (\<lambda>t. title t \<noteq> None), other_cast = (\<lambda>i. None)\<rparr>"

definition status_request :: request where
  "status_request = \<lparr>verb = PUT, path = [''000000000000000000000004'', ''status''], principal = None,
                      sortBy = None, body = no_fields\<lparr>completed := Some True\<rparr>\<rparr>"

definition team_body :: body where
  "team_body = no_fields\<lparr>title := Some ''plan'', workspace := Some ''team'',
                          team := Some ''000000000000000000000199''\<rparr>"

definition empty_team_body :: body where
  "empty_team_body = no_fields\<lparr>title := Some ''plan'', workspace := Some ''team'',
                                team := Some []\<rparr>"

definition personal_body :: body where
  "personal_body = no_fields\<lparr>title := Some ''notes'', workspace := Some ''personal''\<rparr>"

definition task5 :: Task where
  "task5 = \<lparr>title = Some ''notes'', description = None, dueDate = None,
            priority = None, completed = Some False, workspace = Some ''personal'',
            team = None, oid = ''000000000000000000000005'', user = ''alice'', createdAt = 50\<rparr>"

definition db5 :: store where
  "db5 = db\<lparr>tasks := [task1, task2, task3, task4, task5]\<rparr>"

definition retitled :: Task where
  "retitled = task1\<lparr>title := Some ''x'', description := None, priority := None,
                     completed := None\<rparr>"

definition list_request :: request where
  "list_request = \<lparr>verb = GET, path = [], principal = Some ''alice'', sortBy = None,
                    body = no_fields\<rparr>"

lemmas demo = db_def env1_def task1_def task2_def task3_def task4_def no_fields_def

section \<open>Lists and the store\<close>

lemma mset_insert_desc: "mset (insert_desc key x xs) = add_mset x (mset xs)"
  by (induction xs) auto

lemma mset_sort_desc: "mset (sort_desc key xs) = mset xs"
  by (induction xs) (auto simp: sort_desc_def mset_insert_desc)

lemma set_insert_desc: "set (insert_desc key x xs) = insert x (set xs)"
  by (induction xs) auto

lemma descending_insert_desc:
  "sorted_wrt (\<lambda>a b. key b \<le> key a) xs \<Longrightarrow>
   sorted_wrt (\<lambda>a b. key b \<le> key a) (insert_desc key x xs)"
  by (induction xs) (auto simp: set_insert_desc)

lemma descending_sort_desc: "sorted_wrt (\<lambda>a b. key b \<le> key a) (sort_desc key xs)"
  by (induction xs) (auto simp: sort_desc_def descending_insert_desc)

lemma find_replace_first:
  "find P xs = Some t \<Longrightarrow> P y \<Longrightarrow> find P (replace_first P y xs) = Some y"
  by (induction xs) (auto split: if_splits)

lemma map_replace_first:
  "find P xs = Some t \<Longrightarrow> f y = f t \<Longrightarrow> map f (replace_first P y xs) = map f xs"
  by (induction xs) (auto split: if_splits)

lemma find_oid: "find (\<lambda>t. oid t = i) xs = Some t \<Longrightarrow> oid t = i"
  by (auto simp: find_Some_iff)


lemma oid_as_read: "oid (as_read t) = oid t"
  by (simp add: as_read_def split: option.splits)

lemma dispatch_put_status:
  "verb rq = PUT \<Longrightarrow> path rq = [p, ''status''] \<Longrightarrow>
   dispatch router e rq s = auth rq (\<lambda>uid. put_id_status e uid p (body rq)) s"
  by (simp add: router_def)

lemma map_insert_desc:
  "map key (insert_desc key x xs) = insert_desc (\<lambda>k. k) (key x) (map key xs)"
  by (induction xs) auto

lemma map_sort_desc: "map key (sort_desc key xs) = sort_desc (\<lambda>k. k) (map key xs)"
  by (induction xs) (auto simp: sort_desc_def map_insert_desc)

lemma set_sort_desc: "set (sort_desc key xs) = set xs"
  using mset_sort_desc [of key xs] by (rule mset_eq_setD)

lemma get_root_up:
  "db_up e \<Longrightarrow>
   get_root e uid sort_param s =
     (s, Response 200 (TaskList
        (if sort_param = Some ''priority'' then
           sort_desc priority (filter (\<lambda>t. user t = uid) (tasks s))
         else if sort_param = Some ''dateAdded'' then
           sort_desc createdAt (filter (\<lambda>t. user t = uid) (tasks s))
         else filter (\<lambda>t. user t = uid) (tasks s))))"
  by (simp add: get_root_def Task_find_def sorted_by_def)

lemma createdAt_as_read: "createdAt (as_read t) = createdAt t"
  by (simp add: as_read_def split: option.splits)

lemma Task_findById_cast:
  "to_ObjectId e i = Some k \<Longrightarrow>
   Task_findById e i s =
     (if db_up e then Resolved (find (\<lambda>t. oid t = k) (tasks s)) else Rejected)"
  by (simp add: Task_findById_def)

lemma Task_findById_no_cast: "to_ObjectId e i = None \<Longrightarrow> Task_findById e i s = Rejected"
  by (simp add: Task_findById_def)

lemma Team_findById_cast:
  "to_ObjectId e i = Some k \<Longrightarrow>
   Team_findById e i s =
     (if db_up e then Resolved (find (\<lambda>t. team_oid t = k) (teams s)) else Rejected)"
  by (simp add: Team_findById_def)

lemma Team_findById_no_cast: "to_ObjectId e i = None \<Longrightarrow> Team_findById e i s = Rejected"
  by (simp add: Team_findById_def)

lemma Task_findByIdAndUpdate_cast:
  "to_ObjectId e i = Some k \<Longrightarrow>
   Task_findByIdAndUpdate e i c s =
     (if db_up e then
        (case find (\<lambda>t. oid t = k) (tasks s) of
           None \<Rightarrow> Resolved (s, None)
         | Some t \<Rightarrow>
             (let t' = (case c of None \<Rightarrow> t | Some b \<Rightarrow> t\<lparr>completed := Some b\<rparr>)
              in Resolved (s\<lparr>tasks := replace_first (\<lambda>x. oid x = k) t' (tasks s)\<rparr>, Some t')))
      else Rejected)"
  by (simp add: Task_findByIdAndUpdate_def)

lemma Task_findByIdAndUpdate_no_cast:
  "to_ObjectId e i = None \<Longrightarrow> Task_findByIdAndUpdate e i c s = Rejected"
  by (simp add: Task_findByIdAndUpdate_def)

lemmas casting = to_ObjectId_def hex_digit_def lower_def

lemma put_id_store:
  "fst (put_id e uid i b s) = s \<or>
   (\<exists>k t. to_ObjectId e i = Some k \<and> find (\<lambda>t. oid t = k) (tasks s) = Some t \<and>
     fst (put_id e uid i b s)
       = s\<lparr>tasks := replace_first (\<lambda>x. oid x = k)
            (as_read (t\<lparr>title := title b, description := description b,
                        dueDate := dueDate b, priority := priority b,
                        completed := completed b\<rparr>)) (tasks s)\<rparr>)"
proof (cases "to_ObjectId e i")
  case None
  then show ?thesis by (simp add: put_id_def Task_findById_no_cast)
next
  case cast: (Some k)
  show ?thesis
  proof (cases "find (\<lambda>t. oid t = k) (tasks s)")
    case None
    then show ?thesis by (simp add: put_id_def Task_findById_cast [OF cast])
  next
    case (Some t)
    then have "oid t = k" by (rule find_oid)
    with Some cast show ?thesis
      by (simp add: put_id_def Task_findById_cast [OF cast] save_loaded_def Let_def)
  qed
qed

lemma put_id_status_store:
  "fst (put_id_status e uid i b s) = s \<or>
   (\<exists>k t. to_ObjectId e i = Some k \<and> find (\<lambda>t. oid t = k) (tasks s) = Some t \<and>
     fst (put_id_status e uid i b s)
       = s\<lparr>tasks := replace_first (\<lambda>x. oid x = k)
            (case completed b of None \<Rightarrow> t | Some c \<Rightarrow> t\<lparr>completed := Some c\<rparr>) (tasks s)\<rparr>)"
proof (cases "to_ObjectId e i")
  case None
  then show ?thesis by (simp add: put_id_status_def Task_findByIdAndUpdate_no_cast)
next
  case cast: (Some k)
  then show ?thesis
    by (cases "find (\<lambda>t. oid t = k) (tasks s)")
      (simp_all add: put_id_status_def Task_findByIdAndUpdate_cast [OF cast] Let_def)
qed

lemma put_id_doc:
  "to_ObjectId e i = Some k \<Longrightarrow> find (\<lambda>t. oid t = k) (tasks s) = Some t \<Longrightarrow>
   snd (put_id e uid i b s) = Response 200 (TaskDoc t') \<Longrightarrow>
   t' = t\<lparr>title := title b, description := description b, dueDate := dueDate b,
          priority := priority b, completed := completed b\<rparr>"
  by (simp add: put_id_def Task_findById_cast save_loaded_def server_error_def Let_def
      split: if_splits)

lemma put_id_status_doc:
  "to_ObjectId e i = Some k \<Longrightarrow> find (\<lambda>t. oid t = k) (tasks s) = Some t \<Longrightarrow>
   snd (put_id_status e uid i b s) = Response 200 (TaskDoc t') \<Longrightarrow>
   t' = (case completed b of None \<Rightarrow> t | Some c \<Rightarrow> t\<lparr>completed := Some c\<rparr>)"
  by (simp add: put_id_status_def Task_findByIdAndUpdate_cast Let_def split: if_splits)

lemma dup_slot:
  "router[6 := Root GET h] =
     [Root GET (\<lambda>e uid rq. get_root e uid (sortBy rq)),
      Root POST (\<lambda>e uid rq. post_root e uid (body rq)),
      Param PUT (\<lambda>e uid p rq. put_id e uid p (body rq)),
      Param DELETE (\<lambda>e uid p rq. delete_id e uid p),
      Param POST (\<lambda>e uid p rq. post_teamId e uid p (body rq)),
      Param GET (\<lambda>e uid p rq. get_teamId e uid p),
      Root GET h,
      ParamLit PUT ''status'' (\<lambda>e uid p rq. put_id_status e uid p (body rq))]"
  by (simp add: router_def)


section \<open>Ownership on update and delete\<close>





section \<open>The status route\<close>

text \<open>
  C2, as the claim has it, fails: for a path segment that is not an identifier
  no task matches, and the answer is 500 \<open>Internal server error\<close>, not 404,
  because the query is rejected by the cast.
\<close>

theorem status_malformed_id_counterexample:
  "find (\<lambda>t. oid t = ''not-an-id'') (tasks db) = None
   \<and> put_id_status env1 ''alice'' ''not-an-id'' (no_fields\<lparr>completed := Some True\<rparr>) db
       = (db, Response 500 (Message ''Internal server error''))"
  by (simp add: demo casting put_id_status_def Task_findByIdAndUpdate_def)

text \<open>
  C2, amended. \<^verbatim>\<open>PUT /:id/status\<close> does not look at the acting user: handler and
  router give the same store and the same response to any two authenticated
  callers. With the database answering, an id that casts to an identifier is
  answered by 404 when no task has it and by 200 with the record after the
  update, which is then the stored one, when a task has it; an id that does not
  cast is answered by 500 with the store as it was.
\<close>

theorem status_update_ignores_caller:
  "put_id_status e u1 i b s = put_id_status e u2 i b s
   \<and> (verb rq = PUT \<and> path rq = [i, ''status''] \<longrightarrow>
        dispatch router e (rq\<lparr>principal := Some u1\<rparr>) s
        = dispatch router e (rq\<lparr>principal := Some u2\<rparr>) s)
   \<and> (db_up e \<longrightarrow>
        (case to_ObjectId e i of
           None \<Rightarrow>
             put_id_status e u1 i b s = (s, Response 500 (Message ''Internal server error''))
         | Some k \<Rightarrow>
             (case find (\<lambda>t. oid t = k) (tasks s) of
                None \<Rightarrow>
                  put_id_status e u1 i b s = (s, Response 404 (Message ''Task not found''))
              | Some t \<Rightarrow>
                  (let t' = (case completed b of None \<Rightarrow> t
                             | Some c \<Rightarrow> t\<lparr>completed := Some c\<rparr>);
                       s' = s\<lparr>tasks := replace_first (\<lambda>x. oid x = k) t' (tasks s)\<rparr>
                   in put_id_status e u1 i b s = (s', Response 200 (TaskDoc t'))
                      \<and> find (\<lambda>t. oid t = k) (tasks s') = Some t'))))"
proof (intro conjI impI)
  show "put_id_status e u1 i b s = put_id_status e u2 i b s"
    by (simp add: put_id_status_def)
next
  assume "verb rq = PUT \<and> path rq = [i, ''status'']"
  then show "dispatch router e (rq\<lparr>principal := Some u1\<rparr>) s
        = dispatch router e (rq\<lparr>principal := Some u2\<rparr>) s"
    by (simp add: dispatch_put_status auth_def put_id_status_def)
next
  assume up: "db_up e"
  show "case to_ObjectId e i of
           None \<Rightarrow>
             put_id_status e u1 i b s = (s, Response 500 (Message ''Internal server error''))
         | Some k \<Rightarrow>
             (case find (\<lambda>t. oid t = k) (tasks s) of
                None \<Rightarrow>
                  put_id_status e u1 i b s = (s, Response 404 (Message ''Task not found''))
              | Some t \<Rightarrow>
                  (let t' = (case completed b of None \<Rightarrow> t
                             | Some c \<Rightarrow> t\<lparr>completed := Some c\<rparr>);
                       s' = s\<lparr>tasks := replace_first (\<lambda>x. oid x = k) t' (tasks s)\<rparr>
                   in put_id_status e u1 i b s = (s', Response 200 (TaskDoc t'))
                      \<and> find (\<lambda>t. oid t = k) (tasks s') = Some t'))"
  proof (cases "to_ObjectId e i")
    case None
    then show ?thesis
      by (simp add: put_id_status_def Task_findByIdAndUpdate_no_cast)
  next
    case cast: (Some k)
    show ?thesis
    proof (cases "find (\<lambda>t. oid t = k) (tasks s)")
      case None
      with up cast show ?thesis
        by (simp add: put_id_status_def Task_findByIdAndUpdate_cast [OF cast])
    next
      case (Some t)
      then have "oid t = k" by (rule find_oid)
      with Some up cast show ?thesis
        by (auto simp: put_id_status_def Task_findByIdAndUpdate_cast [OF cast] Let_def
            intro!: find_replace_first split: option.splits)
    qed
  qed
qed

theorem status_update_ignores_caller_witness:
  "verb status_request = PUT
   \<and> path status_request = [''000000000000000000000004'', ''status'']
   \<and> dispatch router env1 (status_request\<lparr>principal := Some ''alice''\<rparr>) db
     = dispatch router env1 (status_request\<lparr>principal := Some ''bob''\<rparr>) db
   \<and> db_up env1 \<and> user task4 \<noteq> ''alice''
   \<and> put_id_status env1 ''alice'' ''000000000000000000000004'' (body status_request) db
     = (db\<lparr>tasks := [task1, task2, task3, task4\<lparr>completed := Some True\<rparr>]\<rparr>,
        Response 200 (TaskDoc (task4\<lparr>completed := Some True\<rparr>)))
   \<and> put_id_status env1 ''alice'' ''000000000000000000000009'' (body status_request) db
     = (db, Response 404 (Message ''Task not found''))
   \<and> put_id_status env1 ''alice'' ''not-an-id'' (body status_request) db
     = (db, Response 500 (Message ''Internal server error''))"
  using status_update_ignores_caller
      [of env1 "''alice''" "''000000000000000000000004''" "body status_request" db "''bob''"
        status_request]
    status_update_ignores_caller
      [of env1 "''alice''" "''000000000000000000000009''" "body status_request" db "''bob''"
        status_request]
    status_update_ignores_caller
      [of env1 "''alice''" "''not-an-id''" "body status_request" db "''bob''" status_request]
  by (simp add: demo casting status_request_def Let_def put_id_status_def
      Task_findByIdAndUpdate_def dispatch_put_status auth_def)


section \<open>Creation\<close>

text \<open>
  C3, as the claim has it, fails: a body with \<open>workspace\<close> equal to \<open>team\<close> and a
  non-empty \<open>team\<close>, here the id of a team that exists and has the acting user as
  a member, is answered by 500 and nothing is stored when it has no title, which
  the schema of the environment requires.
\<close>

theorem team_create_rejected_counterexample:
  "workspace (no_fields\<lparr>workspace := Some ''team'', team := Some ''000000000000000000000101''\<rparr>)
     = Some ''team''
   \<and> team (no_fields\<lparr>workspace := Some ''team'', team := Some ''000000000000000000000101''\<rparr>)
     = Some ''000000000000000000000101''
   \<and> post_root env1 ''bob''
        (no_fields\<lparr>workspace := Some ''team'', team := Some ''000000000000000000000101''\<rparr>) db
     = (db, Response 500 (Text ''Server Error''))"
  by (simp add: demo post_root_def falsy_def save_new_def server_error_def Let_def)

text \<open>
  C3, amended. \<^verbatim>\<open>POST /\<close> with \<open>workspace\<close> equal to \<open>team\<close> and a non-empty \<open>team\<close>
  saves the task and returns it when the persistence layer accepts the save, and
  answers 500 with the store as it was when it does not, whatever the team
  collection holds: the teams of the store have no effect on the store's tasks
  afterwards or on the response, and they are handed back as they were.
\<close>

theorem generic_create_skips_team_directory:
  assumes ws: "workspace b = Some ''team''" and tm: "team b = Some g" "g \<noteq> []"
  shows "(let task = \<lparr>title = title b, description = description b, dueDate = dueDate b,
                      priority = priority b, completed = Some False,
                      workspace = Some ''team'', team = Some g,
                      oid = new_id e, user = uid, createdAt = now e\<rparr>
          in post_root e uid b s
               = (if db_up e \<and> validate e task
                  then (s\<lparr>tasks := tasks s @ [task]\<rparr>, Response 200 (TaskDoc task))
                  else (s, Response 500 (Text ''Server Error''))))
       \<and> post_root e uid b (s\<lparr>teams := ts\<rparr>)
           = (fst (post_root e uid b s)\<lparr>teams := ts\<rparr>, snd (post_root e uid b s))"
  using ws tm by (simp add: post_root_def falsy_def save_new_def server_error_def Let_def)

theorem generic_create_skips_team_directory_witness:
  "workspace team_body = Some ''team'' \<and> team team_body = Some ''000000000000000000000199''
   \<and> ''000000000000000000000199'' \<noteq> []
   \<and> db_up env1 \<and> find (\<lambda>t. team_oid t = ''000000000000000000000199'') (teams db) = None
   \<and> ''alice'' \<notin> set (concat (map members (teams db)))
   \<and> post_root env1 ''alice'' team_body db
      = (db\<lparr>tasks := tasks db @
           [\<lparr>title = Some ''plan'', description = None, dueDate = None,
             priority = None, completed = Some False,
             workspace = Some ''team'', team = Some ''000000000000000000000199'',
             oid = ''000000000000000000000005'', user = ''alice'', createdAt = 50\<rparr>]\<rparr>,
         Response 200 (TaskDoc \<lparr>title = Some ''plan'', description = None, dueDate = None,
                                priority = None, completed = Some False,
                                workspace = Some ''team'',
                                team = Some ''000000000000000000000199'',
                                oid = ''000000000000000000000005'', user = ''alice'',
                                createdAt = 50\<rparr>))"
  using generic_create_skips_team_directory
    [of team_body "''000000000000000000000199''" env1 "''alice''" db "[]"]
  by (simp add: demo team_body_def Let_def)

text \<open>
  C4, as the claim has it, fails: for a path segment that is not an identifier
  no team has the id, and both team routes answer 500 \<open>Server Error\<close>, not 404,
  because the query is rejected by the cast.
\<close>

theorem team_malformed_id_counterexample:
  "find (\<lambda>t. team_oid t = ''not-an-id'') (teams db) = None
   \<and> post_teamId env1 ''bob'' ''not-an-id'' team_body db
       = (db, Response 500 (Text ''Server Error''))
   \<and> get_teamId env1 ''bob'' ''not-an-id'' db = (db, Response 500 (Text ''Server Error''))"
  by (simp add: demo casting post_teamId_def get_teamId_def Team_findById_def
      server_error_def)

text \<open>
  C4, amended. With the database answering, \<^verbatim>\<open>POST /:teamId\<close> and \<^verbatim>\<open>GET /:teamId\<close>
  both answer, for a teamId that casts to an identifier, 404 \<open>Team not found\<close>
  when no team has it and 401 when the acting user's id is not among the team's
  members, and for a teamId that does not cast, 500; in all three cases the
  answer is the message alone and the store is the one they were given.
\<close>

theorem team_routes_check_team_and_membership:
  assumes up: "db_up e"
  shows "(case to_ObjectId e teamId of
            None \<Rightarrow>
              post_teamId e uid teamId b s = (s, Response 500 (Text ''Server Error''))
            \<and> get_teamId e uid teamId s = (s, Response 500 (Text ''Server Error''))
          | Some k \<Rightarrow>
              (find (\<lambda>t. team_oid t = k) (teams s) = None \<longrightarrow>
                 post_teamId e uid teamId b s = (s, Response 404 (Msg ''Team not found''))
               \<and> get_teamId e uid teamId s = (s, Response 404 (Msg ''Team not found'')))
            \<and> (\<forall>tm. find (\<lambda>t. team_oid t = k) (teams s) = Some tm
                    \<and> uid \<notin> set (members tm) \<longrightarrow>
                 post_teamId e uid teamId b s
                   = (s, Response 401 (Msg ''Not authorized to create tasks within this team''))
               \<and> get_teamId e uid teamId s
                   = (s, Response 401 (Msg ''Not authorized to view tasks within this team''))))"
proof (cases "to_ObjectId e teamId")
  case None
  then show ?thesis
    by (simp add: post_teamId_def get_teamId_def Team_findById_no_cast server_error_def)
next
  case cast: (Some k)
  with up show ?thesis
    by (simp add: post_teamId_def get_teamId_def Team_findById_cast [OF cast])
qed

theorem team_routes_check_team_and_membership_witness:
  "db_up env1
   \<and> to_ObjectId env1 ''000000000000000000000107'' = Some ''000000000000000000000107''
   \<and> find (\<lambda>t. team_oid t = ''000000000000000000000107'') (teams db) = None
   \<and> post_teamId env1 ''bob'' ''000000000000000000000107'' team_body db
       = (db, Response 404 (Msg ''Team not found''))
   \<and> get_teamId env1 ''bob'' ''000000000000000000000107'' db
       = (db, Response 404 (Msg ''Team not found''))
   \<and> to_ObjectId env1 ''000000000000000000000101'' = Some ''000000000000000000000101''
   \<and> find (\<lambda>t. team_oid t = ''000000000000000000000101'') (teams db)
       = Some \<lparr>team_oid = ''000000000000000000000101'', members = [''bob'']\<rparr>
   \<and> ''alice'' \<notin> set (members \<lparr>team_oid = ''000000000000000000000101'', members = [''bob'']\<rparr>)
   \<and> post_teamId env1 ''alice'' ''000000000000000000000101'' team_body db
       = (db, Response 401 (Msg ''Not authorized to create tasks within this team''))
   \<and> get_teamId env1 ''alice'' ''000000000000000000000101'' db
       = (db, Response 401 (Msg ''Not authorized to view tasks within this team''))
   \<and> to_ObjectId env1 ''not-an-id'' = None
   \<and> get_teamId env1 ''alice'' ''not-an-id'' db = (db, Response 500 (Text ''Server Error''))"
  using team_routes_check_team_and_membership
      [where e = env1 and teamId = "''000000000000000000000107''" and uid = "''bob''"
        and b = team_body and s = db]
    team_routes_check_team_and_membership
      [where e = env1 and teamId = "''000000000000000000000101''" and uid = "''alice''"
        and b = team_body and s = db]
    team_routes_check_team_and_membership
      [where e = env1 and teamId = "''not-an-id''" and uid = "''alice''"
        and b = team_body and s = db]
  by (simp add: demo casting)

text \<open>
  C5, as the claim has it, fails: a body with \<open>workspace\<close> equal to \<open>team\<close> whose
  \<open>team\<close> is present and is the empty string is answered by 400 \<open>Team ID is required
  for team workspace\<close>, because the guard is \<^verbatim>\<open>!team\<close>.
\<close>

theorem empty_team_counterexample:
  "workspace empty_team_body = Some ''team'' \<and> team empty_team_body \<noteq> None
   \<and> post_root env1 ''alice'' empty_team_body db
      = (db, Response 400 (Msg ''Team ID is required for team workspace''))"
  by (simp add: empty_team_body_def demo post_root_def falsy_def)

text \<open>
  C5, amended. \<^verbatim>\<open>POST /\<close> answers 400 \<open>Team ID is required for team workspace\<close>
  exactly when \<open>workspace\<close> is \<open>team\<close> and \<open>team\<close> is absent or empty, and 400 \<open>Invalid
  workspace\<close> exactly when \<open>workspace\<close> is neither \<open>personal\<close> nor \<open>team\<close>; a 400 leaves
  the store as it was. In every other case it saves a new task and returns it
  when the persistence layer accepts the save, and answers 500 when it does not.
\<close>

theorem post_root_outcomes:
  "(snd (post_root e uid b s) = Response 400 (Msg ''Team ID is required for team workspace'')
      \<longleftrightarrow> workspace b = Some ''team'' \<and> falsy (team b))
   \<and> (snd (post_root e uid b s) = Response 400 (Msg ''Invalid workspace'')
      \<longleftrightarrow> workspace b \<noteq> Some ''personal'' \<and> workspace b \<noteq> Some ''team'')
   \<and> ((\<exists>p. snd (post_root e uid b s) = Response 400 p) \<longrightarrow> fst (post_root e uid b s) = s)
   \<and> ((workspace b = Some ''personal'' \<or> workspace b = Some ''team'' \<and> \<not> falsy (team b)) \<longrightarrow>
        (let task = \<lparr>title = title b, description = description b, dueDate = dueDate b,
                     priority = priority b, completed = Some False,
                     workspace = workspace b,
                     team = (if workspace b = Some ''team'' then team b else None),
                     oid = new_id e, user = uid, createdAt = now e\<rparr>
         in post_root e uid b s =
              (if db_up e \<and> validate e task
               then (s\<lparr>tasks := tasks s @ [task]\<rparr>, Response 200 (TaskDoc task))
               else (s, Response 500 (Text ''Server Error'')))))"
  by (simp add: post_root_def save_new_def server_error_def Let_def)

theorem post_root_outcomes_witness:
  "snd (post_root env1 ''alice'' empty_team_body db) = Response 400 (Msg ''Team ID is required for team workspace'')
   \<and> fst (post_root env1 ''alice'' empty_team_body db) = db
   \<and> snd (post_root env1 ''alice'' (no_fields\<lparr>workspace := Some ''bogus''\<rparr>) db) = Response 400 (Msg ''Invalid workspace'')
   \<and> workspace (no_fields\<lparr>title := Some ''x'', workspace := Some ''personal''\<rparr>) = Some ''personal''
   \<and> post_root env1 ''alice'' (no_fields\<lparr>title := Some ''x'', workspace := Some ''personal''\<rparr>) db
      = (db\<lparr>tasks := tasks db @ [\<lparr>title = Some ''x'', description = None, dueDate = None,
                     priority = None, completed = Some False,
                     workspace = Some ''personal'', team = None,
                     oid = ''000000000000000000000005'', user = ''alice'', createdAt = 50\<rparr>]\<rparr>,
         Response 200 (TaskDoc \<lparr>title = Some ''x'', description = None, dueDate = None,
                     priority = None, completed = Some False,
                     workspace = Some ''personal'', team = None,
                     oid = ''000000000000000000000005'', user = ''alice'', createdAt = 50\<rparr>))
   \<and> post_root env1 ''alice'' (no_fields\<lparr>workspace := Some ''personal''\<rparr>) db
      = (db, Response 500 (Text ''Server Error''))"
  using post_root_outcomes [of env1 "''alice''" empty_team_body db]
    post_root_outcomes [of env1 "''alice''" "no_fields\<lparr>workspace := Some ''bogus''\<rparr>" db]
    post_root_outcomes [of env1 "''alice''" "no_fields\<lparr>title := Some ''x'', workspace := Some ''personal''\<rparr>" db]
    post_root_outcomes [of env1 "''alice''" "no_fields\<lparr>workspace := Some ''personal''\<rparr>" db]
  by (simp add: demo empty_team_body_def falsy_def Let_def)


section \<open>Update\<close>

text \<open>
  C6 does not hold of the code. The handler's comment says that it merges
  \<^verbatim>\<open>taskData\<close> with the task, but \<^verbatim>\<open>taskData\<close> has all five keys whatever the body
  carries, so the owner's update with a body that carries a title only is
  answered with a task whose description and priority are gone, and the
  description \<open>draft\<close> and the priority 1 are gone from the store as well.
\<close>

theorem put_id_clears_absent_fields:
  "description (no_fields\<lparr>title := Some ''x''\<rparr>) = None
   \<and> priority (no_fields\<lparr>title := Some ''x''\<rparr>) = None
   \<and> user task1 = ''alice''
   \<and> map description (tasks db) = [Some ''draft'', None, None, None]
   \<and> map priority (tasks db) = [Some 1, Some 5, Some 3, Some 2]
   \<and> snd (put_id env1 ''alice'' ''000000000000000000000001''
             (no_fields\<lparr>title := Some ''x''\<rparr>) db)
      = Response 200 (TaskDoc (task1\<lparr>title := Some ''x'', description := None,
                                    priority := None, completed := None\<rparr>))
   \<and> map description
        (tasks (fst (put_id env1 ''alice'' ''000000000000000000000001''
                       (no_fields\<lparr>title := Some ''x''\<rparr>) db)))
      = [None, None, None, None]
   \<and> map priority
        (tasks (fst (put_id env1 ''alice'' ''000000000000000000000001''
                       (no_fields\<lparr>title := Some ''x''\<rparr>) db)))
      = [None, Some 5, Some 3, Some 2]"
  by (simp add: demo casting put_id_def Task_findById_def save_loaded_def as_read_def Let_def)

section \<open>Listing\<close>

text \<open>
  C7. With the database answering, \<^verbatim>\<open>GET /\<close> answers 200 with exactly the acting
  user's tasks: for \<open>sortBy=priority\<close> in descending order of \<open>priority\<close> (tasks
  stored with the priorities 1, 5, 3 come back as 5, 3, 1), for \<open>sortBy=dateAdded\<close>
  in descending order of \<open>createdAt\<close>, and for any other or no \<open>sortBy\<close> in the order
  of the store.
\<close>

theorem get_root_order:
  assumes up: "db_up e"
  shows "\<exists>ts. get_root e uid sort_param s = (s, Response 200 (TaskList ts))
           \<and> mset ts = mset (filter (\<lambda>t. user t = uid) (tasks s))
           \<and> (sort_param = Some ''priority'' \<longrightarrow>
                sorted_wrt (\<lambda>a b. priority b \<le> priority a) ts
              \<and> (map priority (filter (\<lambda>t. user t = uid) (tasks s)) = [Some 1, Some 5, Some 3]
                   \<longrightarrow> map priority ts = [Some 5, Some 3, Some 1]))
           \<and> (sort_param = Some ''dateAdded'' \<longrightarrow>
                sorted_wrt (\<lambda>a b. createdAt b \<le> createdAt a) ts)
           \<and> (sort_param \<noteq> Some ''priority'' \<and> sort_param \<noteq> Some ''dateAdded'' \<longrightarrow>
                ts = filter (\<lambda>t. user t = uid) (tasks s))"
proof -
  let ?mine = "filter (\<lambda>t. user t = uid) (tasks s)"
  consider (p) "sort_param = Some ''priority''" | (d) "sort_param = Some ''dateAdded''"
    | (n) "sort_param \<noteq> Some ''priority''" "sort_param \<noteq> Some ''dateAdded''"
    by blast
  then show ?thesis
  proof cases
    case p
    have "sort_desc (\<lambda>k. k) [Some 1, Some 5, Some (3::int)] = [Some 5, Some 3, Some 1]"
      by (simp add: sort_desc_def)
    then have "map priority ?mine = [Some 1, Some 5, Some 3] \<longrightarrow>
          map priority (sort_desc priority ?mine) = [Some 5, Some 3, Some 1]"
      by (simp add: map_sort_desc)
    with p up show ?thesis
      by (simp add: get_root_up mset_sort_desc descending_sort_desc)
  next
    case d
    with up show ?thesis
      by (simp add: get_root_up mset_sort_desc descending_sort_desc)
  next
    case n
    with up show ?thesis
      by (simp add: get_root_up)
  qed
qed

theorem get_root_order_witness:
  "db_up env1
   \<and> map priority (filter (\<lambda>t. user t = ''alice'') (tasks db)) = [Some 1, Some 5, Some 3]
   \<and> get_root env1 ''alice'' (Some ''priority'') db
       = (db, Response 200 (TaskList [task2, task3, task1]))
   \<and> map priority [task2, task3, task1] = [Some 5, Some 3, Some 1]
   \<and> get_root env1 ''alice'' (Some ''dateAdded'') db
       = (db, Response 200 (TaskList [task3, task2, task1]))
   \<and> get_root env1 ''alice'' None db = (db, Response 200 (TaskList [task1, task2, task3]))
   \<and> Some ''oldest'' \<noteq> Some ''priority'' \<and> Some ''oldest'' \<noteq> Some ''dateAdded''
   \<and> get_root env1 ''alice'' (Some ''oldest'') db
       = (db, Response 200 (TaskList [task1, task2, task3]))"
  using get_root_order [of env1 "''alice''" "Some ''priority''" db]
    get_root_order [of env1 "''alice''" "Some ''dateAdded''" db]
    get_root_order [of env1 "''alice''" "None" db]
    get_root_order [of env1 "''alice''" "Some ''oldest''" db]
  by (simp add: demo get_root_def Task_find_def sorted_by_def sort_desc_def)


text \<open>
  C8. A task that \<^verbatim>\<open>POST /\<close> created for a user with \<open>workspace\<close> equal to
  \<open>personal\<close> is in the list that \<^verbatim>\<open>GET /\<close> then answers to that user, under every
  \<open>sortBy\<close>, and in no list answered to another user.
\<close>

theorem personal_create_then_list:
  assumes created: "post_root e uid b s = (s', Response 200 (TaskDoc t))"
    and ws: "workspace b = Some ''personal''"
    and up: "db_up e'"
  shows "(\<exists>ts. get_root e' uid sort_param s' = (s', Response 200 (TaskList ts)) \<and> t \<in> set ts)
       \<and> (\<forall>other. other \<noteq> uid \<longrightarrow>
            (\<exists>ts. get_root e' other sort_param s' = (s', Response 200 (TaskList ts))
                  \<and> t \<notin> set ts))"
proof -
  from created ws have s': "tasks s' = tasks s @ [t]" and u: "user t = uid"
    by (auto simp: post_root_def save_new_def server_error_def Let_def split: if_splits)
  have listing: "\<exists>ts. get_root e' v sort_param s' = (s', Response 200 (TaskList ts))
                  \<and> set ts = {x \<in> set (tasks s'). user x = v}" for v
    using up by (auto simp: get_root_up set_sort_desc)
  show ?thesis
  proof (intro conjI allI impI)
    from listing [of uid] s' u
    show "\<exists>ts. get_root e' uid sort_param s' = (s', Response 200 (TaskList ts)) \<and> t \<in> set ts"
      by auto
  next
    fix other assume "other \<noteq> uid"
    with listing [of other] u
    show "\<exists>ts. get_root e' other sort_param s' = (s', Response 200 (TaskList ts)) \<and> t \<notin> set ts"
      by auto
  qed
qed

theorem personal_create_then_list_witness:
  "post_root env1 ''alice'' personal_body db = (db5, Response 200 (TaskDoc task5))
   \<and> workspace personal_body = Some ''personal'' \<and> db_up env1
   \<and> (\<exists>ts. get_root env1 ''alice'' None db5 = (db5, Response 200 (TaskList ts))
           \<and> task5 \<in> set ts)
   \<and> ''bob'' \<noteq> ''alice''
   \<and> (\<exists>ts. get_root env1 ''bob'' None db5 = (db5, Response 200 (TaskList ts))
           \<and> task5 \<notin> set ts)"
proof -
  have c: "post_root env1 ''alice'' personal_body db = (db5, Response 200 (TaskDoc task5))"
    by (simp add: demo db5_def personal_body_def task5_def post_root_def save_new_def Let_def)
  have w: "workspace personal_body = Some ''personal''"
    by (simp add: personal_body_def no_fields_def)
  have u: "db_up env1" by (simp add: env1_def)
  have n: "''bob'' \<noteq> ''alice''" by simp
  note r = personal_create_then_list [OF c w u, of None]
  from r have mine: "\<exists>ts. get_root env1 ''alice'' None db5 = (db5, Response 200 (TaskList ts))
           \<and> task5 \<in> set ts"
    by (rule conjunct1)
  from r have "\<forall>other. other \<noteq> ''alice'' \<longrightarrow>
      (\<exists>ts. get_root env1 other None db5 = (db5, Response 200 (TaskList ts)) \<and> task5 \<notin> set ts)"
    by (rule conjunct2)
  then have "''bob'' \<noteq> ''alice'' \<longrightarrow>
      (\<exists>ts. get_root env1 ''bob'' None db5 = (db5, Response 200 (TaskList ts)) \<and> task5 \<notin> set ts)"
    by (rule spec)
  from this n have theirs: "\<exists>ts. get_root env1 ''bob'' None db5
      = (db5, Response 200 (TaskList ts)) \<and> task5 \<notin> set ts"
    by (rule mp)
  from c w u mine n theirs show ?thesis by (intro conjI)
qed


section \<open>Identifier and creation time\<close>

text \<open>
  C9. \<^verbatim>\<open>PUT /:id\<close> and \<^verbatim>\<open>PUT /:id/status\<close> leave \<open>oid\<close> and \<open>createdAt\<close> of every
  stored task as they were, whatever the outcome, and a task they answer with
  has the \<open>oid\<close> and \<open>createdAt\<close> of the stored task it was made from, the one
  that has the identifier the id casts to.
\<close>

theorem updates_keep_id_and_createdAt:
  "map oid (tasks (fst (put_id e uid i b s))) = map oid (tasks s)
   \<and> map createdAt (tasks (fst (put_id e uid i b s))) = map createdAt (tasks s)
   \<and> map oid (tasks (fst (put_id_status e uid i b s))) = map oid (tasks s)
   \<and> map createdAt (tasks (fst (put_id_status e uid i b s))) = map createdAt (tasks s)
   \<and> (\<forall>k t t'. to_ObjectId e i = Some k \<longrightarrow> find (\<lambda>t. oid t = k) (tasks s) = Some t \<longrightarrow>
        (snd (put_id e uid i b s) = Response 200 (TaskDoc t')
         \<or> snd (put_id_status e uid i b s) = Response 200 (TaskDoc t')) \<longrightarrow>
        oid t' = oid t \<and> createdAt t' = createdAt t)"
proof (intro conjI allI impI)
  have put: "map f (tasks (fst (put_id e uid i b s))) = map f (tasks s)"
    if "\<And>t. f (as_read (t\<lparr>title := title b, description := description b,
                  dueDate := dueDate b, priority := priority b,
                  completed := completed b\<rparr>)) = f t" for f :: "Task \<Rightarrow> 'x"
    using put_id_store [of e uid i b s]
  proof (elim disjE exE conjE)
    fix k t
    assume found: "find (\<lambda>t. oid t = k) (tasks s) = Some t"
      and st: "fst (put_id e uid i b s)
       = s\<lparr>tasks := replace_first (\<lambda>x. oid x = k)
            (as_read (t\<lparr>title := title b, description := description b,
                        dueDate := dueDate b, priority := priority b,
                        completed := completed b\<rparr>)) (tasks s)\<rparr>"
    from map_replace_first [OF found that [of t]] st show ?thesis by simp
  qed simp
  have status: "map f (tasks (fst (put_id_status e uid i b s))) = map f (tasks s)"
    if "\<And>t c. f (t\<lparr>completed := c\<rparr>) = f t" for f :: "Task \<Rightarrow> 'x"
    using put_id_status_store [of e uid i b s]
  proof (elim disjE exE conjE)
    fix k t
    assume found: "find (\<lambda>t. oid t = k) (tasks s) = Some t"
      and st: "fst (put_id_status e uid i b s)
       = s\<lparr>tasks := replace_first (\<lambda>x. oid x = k)
            (case completed b of None \<Rightarrow> t | Some c \<Rightarrow> t\<lparr>completed := Some c\<rparr>) (tasks s)\<rparr>"
    have "f (case completed b of None \<Rightarrow> t | Some c \<Rightarrow> t\<lparr>completed := Some c\<rparr>) = f t"
      by (simp add: that split: option.splits)
    from map_replace_first [OF found this] st show ?thesis by simp
  qed simp
  show "map oid (tasks (fst (put_id e uid i b s))) = map oid (tasks s)"
    by (rule put) (simp add: oid_as_read)
  show "map createdAt (tasks (fst (put_id e uid i b s))) = map createdAt (tasks s)"
    by (rule put) (simp add: createdAt_as_read)
  show "map oid (tasks (fst (put_id_status e uid i b s))) = map oid (tasks s)"
    by (rule status) simp
  show "map createdAt (tasks (fst (put_id_status e uid i b s))) = map createdAt (tasks s)"
    by (rule status) simp
next
  fix k t t'
  assume cast: "to_ObjectId e i = Some k"
    and found: "find (\<lambda>t. oid t = k) (tasks s) = Some t"
    and doc: "snd (put_id e uid i b s) = Response 200 (TaskDoc t')
         \<or> snd (put_id_status e uid i b s) = Response 200 (TaskDoc t')"
  from doc have "oid t' = oid t \<and> createdAt t' = createdAt t"
  proof
    assume "snd (put_id e uid i b s) = Response 200 (TaskDoc t')"
    from put_id_doc [OF cast found this] show ?thesis by simp
  next
    assume "snd (put_id_status e uid i b s) = Response 200 (TaskDoc t')"
    from put_id_status_doc [OF cast found this] show ?thesis by (simp split: option.splits)
  qed
  then show "oid t' = oid t" and "createdAt t' = createdAt t" by simp_all
qed

theorem updates_keep_id_and_createdAt_witness:
  "to_ObjectId env1 ''000000000000000000000001'' = Some ''000000000000000000000001''
   \<and> find (\<lambda>t. oid t = ''000000000000000000000001'') (tasks db) = Some task1
   \<and> snd (put_id env1 ''alice'' ''000000000000000000000001''
             (no_fields\<lparr>title := Some ''x''\<rparr>) db)
       = Response 200 (TaskDoc retitled)
   \<and> oid retitled = oid task1 \<and> createdAt retitled = createdAt task1
   \<and> map oid
        (tasks (fst (put_id env1 ''alice'' ''000000000000000000000001''
                       (no_fields\<lparr>title := Some ''x''\<rparr>) db)))
       = map oid (tasks db)
   \<and> map createdAt
        (tasks (fst (put_id_status env1 ''alice'' ''000000000000000000000001''
                       (no_fields\<lparr>title := Some ''x''\<rparr>) db)))
       = map createdAt (tasks db)"
proof -
  note keep = updates_keep_id_and_createdAt
    [of env1 "''alice''" "''000000000000000000000001''" "no_fields\<lparr>title := Some ''x''\<rparr>" db]
  have cast: "to_ObjectId env1 ''000000000000000000000001'' = Some ''000000000000000000000001''"
    by (simp add: casting env1_def)
  have found: "find (\<lambda>t. oid t = ''000000000000000000000001'') (tasks db) = Some task1"
    by (simp add: demo)
  have doc: "snd (put_id env1 ''alice'' ''000000000000000000000001''
                    (no_fields\<lparr>title := Some ''x''\<rparr>) db)
       = Response 200 (TaskDoc retitled)"
    by (simp add: demo casting retitled_def put_id_def Task_findById_def save_loaded_def
        Let_def)
  from keep cast found doc
  have "oid retitled = oid task1 \<and> createdAt retitled = createdAt task1"
    by blast
  with keep cast found doc show ?thesis by blast
qed

section \<open>The duplicate registration\<close>

text \<open>
  C10. The two handlers registered for \<^verbatim>\<open>GET /\<close> are the same function. The
  router answers every request, in every store, as the router without the second
  registration does, and would do so whatever handler stood in its place: the
  first registration takes every request that the second could take.
\<close>

theorem duplicate_get_root_is_dead:
  "get_root_again = get_root
   \<and> dispatch router e rq s = dispatch router_without_duplicate e rq s
   \<and> dispatch (router[6 := Root GET h]) e rq s = dispatch router e rq s"
proof (intro conjI)
  show "get_root_again = get_root"
    by (intro ext) (simp add: get_root_again_def get_root_def)
  have dead: "dispatch (router[6 := Root GET g]) e rq s = dispatch router_without_duplicate e rq s"
    for g
    unfolding dup_slot router_without_duplicate_def
    by (cases "verb rq = GET \<and> path rq = []") (simp_all split: list.splits)
  from dead [of "\<lambda>e uid rq. get_root_again e uid (sortBy rq)"]
  show same: "dispatch router e rq s = dispatch router_without_duplicate e rq s"
    by (simp add: dup_slot) (simp add: router_def)
  with dead [of h] show "dispatch (router[6 := Root GET h]) e rq s = dispatch router e rq s"
    by simp
qed

theorem duplicate_get_root_is_dead_witness:
  "dispatch router env1 list_request db
     = (db, Response 200 (TaskList [task1, task2, task3]))
   \<and> dispatch router_without_duplicate env1 list_request db
     = (db, Response 200 (TaskList [task1, task2, task3]))
   \<and> dispatch (router[6 := Root GET (\<lambda>e uid rq s. (s, Unhandled))]) env1 list_request db
     = (db, Response 200 (TaskList [task1, task2, task3]))"
  using duplicate_get_root_is_dead [of env1 list_request db "\<lambda>e uid rq s. (s, Unhandled)"]
  by (simp add: router_without_duplicate_def list_request_def auth_def get_root_def
      Task_find_def demo)

end
